theory Spec2Isabelle
  imports Complex_Main
begin

section \<open>Soundscape registry (services/audio/soundscapes.ts)\<close>

text \<open>
  A \<open>SoundscapeId\<close> is a JavaScript string at run time; the TypeScript union type that
  restricts it to the five registry keys is erased. Ids are therefore strings here, and
  the registry is the object literal of the source, kept as an association list in the
  order of its keys.
\<close>

type_synonym SoundscapeId = string

record SoundscapeConfig =
  config_id :: SoundscapeId
  name :: string
  description :: string
  filename :: string
  available :: bool

definition SOUNDSCAPE_REGISTRY :: "(SoundscapeId \<times> SoundscapeConfig) list" where
  "SOUNDSCAPE_REGISTRY =
    [(''ocean-waves'', \<lparr>config_id = ''ocean-waves'', name = ''Ocean Waves'',
        description = ''Gentle waves lapping on the shore'', filename = ''ocean-waves'',
        available = True\<rparr>),
     (''rain'', \<lparr>config_id = ''rain'', name = ''Rain'',
        description = ''Soft rainfall on leaves'', filename = ''rain'',
        available = False\<rparr>),
     (''forest'', \<lparr>config_id = ''forest'', name = ''Forest'',
        description = ''Birds and rustling leaves'', filename = ''forest'',
        available = False\<rparr>),
     (''white-noise'', \<lparr>config_id = ''white-noise'', name = ''White Noise'',
        description = ''Steady ambient noise'', filename = ''whitenoise'',
        available = False\<rparr>),
     (''campfire'', \<lparr>config_id = ''campfire'', name = ''Campfire'',
        description = ''Crackling fire sounds'', filename = ''campfire'',
        available = False\<rparr>)]"

definition DEFAULT_SOUNDSCAPE_ID :: SoundscapeId where
  "DEFAULT_SOUNDSCAPE_ID = ''ocean-waves''"


definition getAvailableSoundscapes :: "SoundscapeConfig list" where
  "getAvailableSoundscapes = filter available (map snd SOUNDSCAPE_REGISTRY)"

definition getAllSoundscapes :: "SoundscapeConfig list" where
  "getAllSoundscapes = map snd SOUNDSCAPE_REGISTRY"

text \<open>
  The expression \<open>SOUNDSCAPE_REGISTRY[id]\<close> reads a property of a plain object: an own
  key gives its config, a name that \<open>Object.prototype\<close> defines gives that inherited
  member, and any other string gives \<open>undefined\<close>.
\<close>

datatype 'a js_property = Own 'a | Inherited | Undefined

text \<open>
  Errors are values. \<open>BackgroundAudioError n\<close> is the \<open>NSError\<close> of domain
  "BackgroundAudio" with code \<open>n\<close> that \<open>startPlayback\<close> throws; a rejected native
  call reaches JavaScript as \<open>NativeException\<close>.
\<close>

datatype native_error = SessionConfigError | PlayerInitError | BackgroundAudioError nat

datatype js_error = TypeError | NativeException native_error | StartupFailed | NoCredentials

definition OBJECT_PROTOTYPE_KEYS :: "string list" where
  "OBJECT_PROTOTYPE_KEYS =
    [''constructor'', ''__proto__'', ''hasOwnProperty'', ''isPrototypeOf'',
     ''propertyIsEnumerable'', ''toLocaleString'', ''toString'', ''valueOf'',
     ''__defineGetter__'', ''__defineSetter__'', ''__lookupGetter__'',
     ''__lookupSetter__'']"

definition getSoundscapeById :: "SoundscapeId \<Rightarrow> SoundscapeConfig js_property" where
  "getSoundscapeById i =
    (case map_of SOUNDSCAPE_REGISTRY i of
       Some c \<Rightarrow> Own c
     | None \<Rightarrow> if i \<in> set OBJECT_PROTOTYPE_KEYS then Inherited else Undefined)"

text \<open>
  \<open>SOUNDSCAPE_REGISTRY[id].filename\<close>: reading a property of \<open>undefined\<close> throws a
  TypeError; an inherited member has no such property, so the read gives \<open>undefined\<close>
  (\<open>None\<close>).
\<close>

definition getSoundscapeFilename :: "SoundscapeId \<Rightarrow> js_error + string option" where
  "getSoundscapeFilename i =
    (case getSoundscapeById i of
       Own c \<Rightarrow> Inr (Some (filename c))
     | Inherited \<Rightarrow> Inr None
     | Undefined \<Rightarrow> Inl TypeError)"

definition isSoundscapeAvailable :: "SoundscapeId \<Rightarrow> js_error + bool option" where
  "isSoundscapeAvailable i =
    (case getSoundscapeById i of
       Own c \<Rightarrow> Inr (Some (available c))
     | Inherited \<Rightarrow> Inr None
     | Undefined \<Rightarrow> Inl TypeError)"

section \<open>Audio preference store (stores/audioStore.ts)\<close>

text \<open>
  Volumes are JavaScript numbers; they are modelled as reals, on which \<open>Math.max\<close> and
  \<open>Math.min\<close> are \<open>max\<close> and \<open>min\<close> (both are exact on finite doubles). NaN is not a
  real and is outside this model.
\<close>

record AudioStoreState =
  volume :: real
  soundscapeId :: SoundscapeId


definition useAudioStore_setVolume :: "real \<Rightarrow> AudioStoreState \<Rightarrow> AudioStoreState" where
  "useAudioStore_setVolume v st =
    (let clampedVolume = max 0 (min 1 v) in st\<lparr>volume := clampedVolume\<rparr>)"


section \<open>Native module (BackgroundAudioModule.swift)\<close>

text \<open>
  What the platform answers is an input of the model: whether the audio session can be
  configured and activated, which \<open>m4a\<close> resources the main bundle holds, whether
  \<open>AVAudioPlayer(contentsOf:)\<close> succeeds and what \<open>AVAudioPlayer.play()\<close> returns.
\<close>

record platform =
  session_activates :: bool
  bundle_resources :: "string list"
  player_creates :: bool
  player_plays :: bool

text \<open>
  \<open>AVAudioPlayer.volume\<close> is a \<open>Float\<close>: the module narrows the clamped \<open>Double\<close> with
  \<open>Float(...)\<close>, and the literal \<open>0.3\<close> it assigns is a \<open>Float\<close> literal. A \<open>Float\<close> has 24
  significant bits and no spacing finer than \<open>2^-149\<close>; the conversion takes the nearest
  such value, a tie going to the even one. \<open>float_scale\<close> finds the spacing \<open>2^-k\<close> at the
  magnitude of the argument, the least \<open>k\<close> up to 149 that brings it to \<open>2^23\<close> or more.
  This is the conversion for magnitudes below \<open>2^24\<close>; the volumes it is applied to lie
  in \<open>[0, 1]\<close>.
\<close>

definition round_half_even :: "real \<Rightarrow> int" where
  "round_half_even y =
    (let f = \<lfloor>y\<rfloor>; d = y - of_int f
     in if d < 1 / 2 then f else if 1 / 2 < d then f + 1 else if even f then f else f + 1)"

primrec float_scale :: "nat \<Rightarrow> nat \<Rightarrow> real \<Rightarrow> nat" where
  "float_scale 0 k x = k"
| "float_scale (Suc n) k x = (if 2 ^ 23 \<le> x * 2 ^ k then k else float_scale n (Suc k) x)"

definition Float :: "real \<Rightarrow> real" where
  "Float x =
    (let k = float_scale 149 0 \<bar>x\<bar>
     in of_int (round_half_even (x * 2 ^ k)) / 2 ^ k)"

record AVAudioPlayer =
  contentsOf :: string
  numberOfLoops :: int
  player_volume :: real

text \<open>
  The trace records the playback operations of the module: \<open>StartPlayback\<close> and
  \<open>PlaybackStarted\<close> are the two lines \<open>startPlayback\<close> prints ("START PLAYBACK" on
  entry, "Playback started successfully!" once the player runs); \<open>StopPlayback\<close> is an
  entry into \<open>stopPlayback\<close>. \<open>sentEvents\<close> are the \<open>onPlaybackStateChanged\<close> events
  sent to JavaScript, each with its \<open>isPlaying\<close> flag and its reason.
\<close>

datatype engine_op = StartPlayback | PlaybackStarted | StopPlayback

record BackgroundAudioModule =
  audioPlayer :: "AVAudioPlayer option"
  playing :: bool
  currentSoundscape :: string
  trace :: "engine_op list"
  sentEvents :: "(bool \<times> string) list"

definition BackgroundAudioModule_created :: BackgroundAudioModule where
  "BackgroundAudioModule_created =
    \<lparr>audioPlayer = None, playing = False, currentSoundscape = ''ocean-waves'',
     trace = [], sentEvents = []\<rparr>"

definition sendEvent :: "bool \<times> string \<Rightarrow> BackgroundAudioModule \<Rightarrow> BackgroundAudioModule" where
  "sendEvent e m = m\<lparr>sentEvents := sentEvents m @ [e]\<rparr>"

definition startPlayback ::
  "platform \<Rightarrow> BackgroundAudioModule \<Rightarrow> (native_error + bool) \<times> BackgroundAudioModule" where
  "startPlayback env m =
    (let m1 = m\<lparr>trace := trace m @ [StartPlayback]\<rparr> in
     if \<not> session_activates env then (Inl SessionConfigError, m1)
     else if currentSoundscape m1 \<notin> set (bundle_resources env)
       then (Inl (BackgroundAudioError 1), m1)
     else if \<not> player_creates env then (Inl PlayerInitError, m1)
     else
       let m2 = m1\<lparr>audioPlayer := Some \<lparr>contentsOf = currentSoundscape m1,
                        numberOfLoops = - 1, player_volume = Float (3 / 10)\<rparr>\<rparr> in
       if player_plays env
       then (Inr True, m2\<lparr>playing := True, trace := trace m2 @ [PlaybackStarted]\<rparr>)
       else (Inl (BackgroundAudioError 2), m2))"

text \<open>
  Modelled from the spec: the body of \<open>stopPlayback\<close> is not among the sources (the
  module listing ends in "playback methods"). The spec's Engine \<open>stop()\<close> tears down the
  live handle and is idempotent, succeeding trivially when nothing is playing.
\<close>

definition stopPlayback :: "BackgroundAudioModule \<Rightarrow> bool \<times> BackgroundAudioModule" where
  "stopPlayback m =
    (True, m\<lparr>audioPlayer := None, playing := False, trace := trace m @ [StopPlayback]\<rparr>)"

definition BackgroundAudioModule_play ::
  "platform \<Rightarrow> string option \<Rightarrow> BackgroundAudioModule
    \<Rightarrow> (native_error + bool) \<times> BackgroundAudioModule" where
  "BackgroundAudioModule_play env fn m =
    startPlayback env
      (case fn of
         Some newFilename \<Rightarrow>
           if newFilename \<noteq> [] then m\<lparr>currentSoundscape := newFilename\<rparr> else m
       | None \<Rightarrow> m)"

definition BackgroundAudioModule_stop :: "BackgroundAudioModule \<Rightarrow> bool \<times> BackgroundAudioModule" where
  "BackgroundAudioModule_stop m = stopPlayback m"

definition BackgroundAudioModule_setVolume ::
  "real \<Rightarrow> BackgroundAudioModule \<Rightarrow> bool \<times> BackgroundAudioModule" where
  "BackgroundAudioModule_setVolume v m =
    (True, m\<lparr>audioPlayer :=
       map_option (\<lambda>p. p\<lparr>player_volume := Float (max 0 (min 1 v))\<rparr>) (audioPlayer m)\<rparr>)"

definition BackgroundAudioModule_isPlaying :: "BackgroundAudioModule \<Rightarrow> bool" where
  "BackgroundAudioModule_isPlaying m = playing m"


text \<open>
  \<open>handleInterruption\<close>: \<open>setActive(true)\<close> is a throwing call, so its failure is a
  branch; \<open>audioPlayer?.play() ?? false\<close> is \<open>false\<close> without a player.
\<close>

datatype interruption_type = began | ended

definition handleInterruption ::
  "platform \<Rightarrow> interruption_type \<Rightarrow> BackgroundAudioModule
    \<Rightarrow> (native_error + unit) \<times> BackgroundAudioModule" where
  "handleInterruption env t m =
    (case t of
       began \<Rightarrow> (Inr (), sendEvent (False, ''interrupted'') m)
     | ended \<Rightarrow>
         if playing m then
           if \<not> session_activates env then (Inl SessionConfigError, m)
           else
             let resumed = (case audioPlayer m of Some p \<Rightarrow> player_plays env | None \<Rightarrow> False) in
             if resumed then (Inr (), sendEvent (True, ''resumed'') m)
             else (Inr (), sendEvent (False, ''resumeFailed'') (m\<lparr>playing := False\<rparr>))
         else (Inr (), m))"

section \<open>Module binding (modules/background-audio/src/BackgroundAudioModule.ts)\<close>

text \<open>
  The exported binding is \<open>null\<close> unless the platform is iOS and \<open>requireNativeModule\<close>
  returns; its exception (the module is missing, as in Expo Go) is caught and leaves
  \<open>null\<close>. The second argument is what \<open>requireNativeModule\<close> would return, \<open>None\<close>
  when it throws.
\<close>

definition loadBackgroundAudioModule ::
  "string \<Rightarrow> BackgroundAudioModule option \<Rightarrow> BackgroundAudioModule option" where
  "loadBackgroundAudioModule os required =
    (if os = ''ios'' then (case required of Some m \<Rightarrow> Some m | None \<Rightarrow> None) else None)"

section \<open>Audio service (services/audio/AudioService.ts)\<close>

text \<open>
  The service object holds the cached flag, the interval handle and the registered
  callback (callbacks and timer handles are named by numbers). The world around it holds
  the platform name, the module binding, the running intervals with their period, the
  callbacks invoked so far, the console warnings, and the signer's \<open>node\<close> field of
  \<open>IglooService\<close>.
\<close>

record AudioService =
  isPlaying :: bool
  healthCheckInterval :: "nat option"
  onHealthCheckFailed :: "nat option"

record world =
  platformOS :: string
  nativeModule :: "BackgroundAudioModule option"
  audioService :: AudioService
  intervals :: "(nat \<times> nat) list"
  timersCreated :: nat
  callbacksInvoked :: "nat list"
  consoleWarnings :: "string list"
  node :: bool

definition app_launched :: "string \<Rightarrow> BackgroundAudioModule option \<Rightarrow> world" where
  "app_launched os required =
    \<lparr>platformOS = os, nativeModule = loadBackgroundAudioModule os required,
     audioService = \<lparr>isPlaying = False, healthCheckInterval = None,
                     onHealthCheckFailed = None\<rparr>,
     intervals = [], timersCreated = 0, callbacksInvoked = [], consoleWarnings = [],
     node = False\<rparr>"

definition set_isPlaying :: "bool \<Rightarrow> world \<Rightarrow> world" where
  "set_isPlaying b w = w\<lparr>audioService := (audioService w)\<lparr>isPlaying := b\<rparr>\<rparr>"

text \<open>\<open>AudioService.play\<close> as the background-audio implementation documents give it.\<close>

definition AudioService_play :: "platform \<Rightarrow> world \<Rightarrow> (js_error + unit) \<times> world" where
  "AudioService_play env w =
    (case nativeModule w of
       Some m \<Rightarrow>
         if platformOS w = ''ios'' then
           let nativeIsPlaying = BackgroundAudioModule_isPlaying m in
           if nativeIsPlaying then (Inr (), set_isPlaying True w)
           else
             (case BackgroundAudioModule_play env None m of
                (Inl e, m') \<Rightarrow> (Inl (NativeException e), w\<lparr>nativeModule := Some m'\<rparr>)
              | (Inr r, m') \<Rightarrow> (Inr (), set_isPlaying True (w\<lparr>nativeModule := Some m'\<rparr>)))
         else (Inr (), w)
     | None \<Rightarrow> (Inr (), w))"

text \<open>
  \<open>AudioService.play\<close> as the signer integration document gives it: after the native
  check it also returns when the cached flag is already set.
\<close>

definition AudioService_play_integration ::
  "platform \<Rightarrow> world \<Rightarrow> (js_error + unit) \<times> world" where
  "AudioService_play_integration env w =
    (case nativeModule w of
       Some m \<Rightarrow>
         if platformOS w = ''ios'' then
           let nativeIsPlaying = BackgroundAudioModule_isPlaying m in
           if nativeIsPlaying then (Inr (), set_isPlaying True w)
           else if isPlaying (audioService w) then (Inr (), w)
           else
             (case BackgroundAudioModule_play env None m of
                (Inl e, m') \<Rightarrow> (Inl (NativeException e), w\<lparr>nativeModule := Some m'\<rparr>)
              | (Inr r, m') \<Rightarrow> (Inr (), set_isPlaying True (w\<lparr>nativeModule := Some m'\<rparr>)))
         else (Inr (), w)
     | None \<Rightarrow> (Inr (), w))"

definition getIsPlaying :: "world \<Rightarrow> bool" where
  "getIsPlaying w = isPlaying (audioService w)"

text \<open>
  \<open>startHealthCheck\<close> registers the callback and starts an interval (\<open>intervalMs\<close>
  defaults to 30000); timer handles are positive numbers, so a stored handle is truthy
  for \<open>stopHealthCheck\<close>. The body run at each tick awaits \<open>getIsPlayingAsync()\<close>, whose
  definition is not among the sources: its answer is the first argument of
  \<open>healthCheckTick\<close>, read only on the branch that awaits it.
\<close>

definition startHealthCheck :: "nat \<Rightarrow> nat option \<Rightarrow> world \<Rightarrow> world" where
  "startHealthCheck onFailed intervalMs w =
    (let ms = (case intervalMs of Some n \<Rightarrow> n | None \<Rightarrow> 30000);
         h = Suc (timersCreated w)
     in w\<lparr>audioService := (audioService w)\<lparr>onHealthCheckFailed := Some onFailed,
                                             healthCheckInterval := Some h\<rparr>,
          intervals := intervals w @ [(h, ms)],
          timersCreated := h\<rparr>)"

definition healthCheckTick :: "bool \<Rightarrow> world \<Rightarrow> world" where
  "healthCheckTick nativeIsPlaying w =
    (if isPlaying (audioService w) then
       if \<not> nativeIsPlaying then
         let w1 = w\<lparr>consoleWarnings := consoleWarnings w @ [''[AudioService] Health check failed'']\<rparr>;
             w2 = set_isPlaying False w1
         in (case onHealthCheckFailed (audioService w2) of
               Some cb \<Rightarrow> w2\<lparr>callbacksInvoked := callbacksInvoked w2 @ [cb]\<rparr>
             | None \<Rightarrow> w2)
       else w
     else w)"

definition stopHealthCheck :: "world \<Rightarrow> world" where
  "stopHealthCheck w =
    (case healthCheckInterval (audioService w) of
       Some h \<Rightarrow>
         w\<lparr>intervals := filter (\<lambda>t. fst t \<noteq> h) (intervals w),
           audioService := (audioService w)\<lparr>healthCheckInterval := None\<rparr>\<rparr>
     | None \<Rightarrow> w)"

section \<open>Signer integration (services/igloo/IglooService.ts)\<close>

text \<open>
  \<open>stopSigner\<close> takes the optional \<open>keepAudio\<close> (\<open>None\<close> when absent); the node cleanup
  clears \<open>node\<close>, and an error of \<open>audioService.stop()\<close> is caught and logged. The body
  of \<open>audioService.stop()\<close> is elided in the sources (\<open>{ ... }\<close>), so it is the first
  argument of both functions. \<open>startSigner\<close> restarts with the audio kept when a node
  exists; the startup that follows is elided in the sources, so whether it succeeds is
  an argument, and its failure leaves \<open>startSigner\<close> before the audio is touched. After
  a successful startup \<open>audioService.play()\<close> runs, its error caught and logged.
\<close>

definition stopSigner ::
  "(world \<Rightarrow> (js_error + unit) \<times> world) \<Rightarrow> bool option \<Rightarrow> world \<Rightarrow> world" where
  "stopSigner audio_stop keepAudio w =
    (let w1 = w\<lparr>node := False\<rparr> in
     if keepAudio \<noteq> Some True then
       (case audio_stop w1 of
          (Inl e, w2) \<Rightarrow> w2\<lparr>consoleWarnings := consoleWarnings w2 @ [''Failed to stop background audio'']\<rparr>
        | (Inr u, w2) \<Rightarrow> w2)
     else w1)"

definition startSigner ::
  "(world \<Rightarrow> (js_error + unit) \<times> world) \<Rightarrow> platform \<Rightarrow> bool \<Rightarrow> world
    \<Rightarrow> (js_error + unit) \<times> world" where
  "startSigner audio_stop env startup_succeeds w =
    (let w1 = (if node w then stopSigner audio_stop (Some True) w else w) in
     if \<not> startup_succeeds then (Inl StartupFailed, w1)
     else
       let w2 = w1\<lparr>node := True\<rparr> in
       (case AudioService_play env w2 of
          (Inl e, w3) \<Rightarrow>
            (Inr (), w3\<lparr>consoleWarnings := consoleWarnings w3 @ [''Failed to start background audio'']\<rparr>)
        | (Inr u, w3) \<Rightarrow> (Inr (), w3)))"

section \<open>Signer hook (hooks/useSigner.ts)\<close>


section \<open>Observations\<close>

definition engine_trace :: "world \<Rightarrow> engine_op list" where
  "engine_trace w = (case nativeModule w of Some m \<Rightarrow> trace m | None \<Rightarrow> [])"

definition engine_starts :: "world \<Rightarrow> nat" where
  "engine_starts w = count_list (engine_trace w) StartPlayback"

definition engine_stops :: "world \<Rightarrow> nat" where
  "engine_stops w = count_list (engine_trace w) StopPlayback"


definition module_available :: "world \<Rightarrow> bool" where
  "module_available w = (platformOS w = ''ios'' \<and> nativeModule w \<noteq> None)"

definition native_playing :: "world \<Rightarrow> bool" where
  "native_playing w = (case nativeModule w of Some m \<Rightarrow> playing m | None \<Rightarrow> False)"

section \<open>Calls of \<open>play()\<close> in sequence and overlapping\<close>


text \<open>
  An \<open>async\<close> function runs without interruption up to each \<open>await\<close>, where other
  callers may run. \<open>play()\<close> has two: the native \<open>isPlaying()\<close> and the native
  \<open>play()\<close>. A call is at one of four points: just called, suspended with the answer of
  \<open>isPlaying()\<close>, suspended with the outcome of the native \<open>play()\<close>, or returned. The
  native side answers a call when it is made.
\<close>

datatype play_pc =
  Called
  | AwaitIsPlaying bool
  | AwaitPlay "native_error + bool"
  | Returned "js_error + unit"

fun play_step :: "platform \<Rightarrow> play_pc \<Rightarrow> world \<Rightarrow> play_pc \<times> world" where
  "play_step env Called w =
    (case nativeModule w of
       Some m \<Rightarrow>
         if platformOS w = ''ios'' then (AwaitIsPlaying (BackgroundAudioModule_isPlaying m), w)
         else (Returned (Inr ()), w)
     | None \<Rightarrow> (Returned (Inr ()), w))"
| "play_step env (AwaitIsPlaying nativeIsPlaying) w =
    (if nativeIsPlaying then (Returned (Inr ()), set_isPlaying True w)
     else
       (case nativeModule w of
          Some m \<Rightarrow>
            (case BackgroundAudioModule_play env None m of
               (r, m') \<Rightarrow> (AwaitPlay r, w\<lparr>nativeModule := Some m'\<rparr>))
        | None \<Rightarrow> (Returned (Inl TypeError), w)))"
| "play_step env (AwaitPlay r) w =
    (case r of
       Inl e \<Rightarrow> (Returned (Inl (NativeException e)), w)
     | Inr b \<Rightarrow> (Returned (Inr ()), set_isPlaying True w))"
| "play_step env (Returned r) w = (Returned r, w)"


section \<open>Session states\<close>

text \<open>
  Modelled from the spec: the type of session states, which the sources do not declare,
  is the spec's \<open>SessionState\<close>.
\<close>

datatype SessionState =
  Stopped | Starting | Playing | Interrupted | Resuming | SwitchingTrack | Failed string

text \<open>
  Each \<open>onPlaybackStateChanged\<close> event carries the state it reports: with \<open>isPlaying\<close>
  set, playing (reason "resumed"); with the reason "interrupted", interrupted; with any
  other reason ("resumeFailed"), a failure with that reason. The path of a session is
  its state before the events followed by the states they report.
\<close>

definition state_of_event :: "bool \<times> string \<Rightarrow> SessionState" where
  "state_of_event e =
    (if fst e then Playing
     else if snd e = ''interrupted'' then Interrupted
     else Failed (snd e))"

definition session_path :: "SessionState \<Rightarrow> (bool \<times> string) list \<Rightarrow> SessionState list" where
  "session_path s0 events = s0 # map state_of_event events"

definition events_since :: "BackgroundAudioModule \<Rightarrow> BackgroundAudioModule \<Rightarrow> (bool \<times> string) list" where
  "events_since m m' = drop (length (sentEvents m)) (sentEvents m')"

text \<open>An interruption that begins and then ends, as the platform delivers it.\<close>

definition interruption_cycle :: "platform \<Rightarrow> BackgroundAudioModule \<Rightarrow> BackgroundAudioModule" where
  "interruption_cycle env m =
    snd (handleInterruption env ended (snd (handleInterruption env began m)))"

section \<open>Concrete inputs\<close>

text \<open>
  A device on which every platform call succeeds and whose bundle holds the one packaged
  track, \<open>ocean-waves.m4a\<close>; and the module as it is after one successful start on it.
\<close>

definition device_ok :: platform where
  "device_ok = \<lparr>session_activates = True, bundle_resources = [''ocean-waves''],
                player_creates = True, player_plays = True\<rparr>"

definition module_playing :: BackgroundAudioModule where
  "module_playing = snd (startPlayback device_ok BackgroundAudioModule_created)"


text \<open>
  A body to put in the place of \<open>audioService.stop()\<close> at concrete inputs: it stops the
  module and clears the cached flag, and calling it on a null binding throws.
\<close>

definition stop_calling_module :: "world \<Rightarrow> (js_error + unit) \<times> world" where
  "stop_calling_module w =
    (case nativeModule w of
       Some m \<Rightarrow>
         (Inr (), set_isPlaying False (w\<lparr>nativeModule := Some (snd (BackgroundAudioModule_stop m))\<rparr>))
     | None \<Rightarrow> (Inl TypeError, w))"

text \<open>
  Worlds built from them: the app just launched on iOS with a fresh module
  (\<open>world_stopped\<close>); JavaScript reloaded while the module kept playing, so that the
  cached flag is unset and the native one set (\<open>world_reloaded\<close>); the signer started
  once (\<open>world_running\<close>); and playback started with the health check registered with
  callback 7 (\<open>world_watched\<close>).
\<close>

definition world_stopped :: world where
  "world_stopped = app_launched ''ios'' (Some BackgroundAudioModule_created)"

definition world_reloaded :: world where
  "world_reloaded = app_launched ''ios'' (Some module_playing)"

definition world_running :: world where
  "world_running = snd (startSigner stop_calling_module device_ok True world_stopped)"

definition world_watched :: world where
  "world_watched = startHealthCheck 7 None (snd (AudioService_play device_ok world_stopped))"

section \<open>Basic facts\<close>

lemma registry_ids_match:
  "map_of SOUNDSCAPE_REGISTRY i = Some c \<Longrightarrow> config_id c = i"
  by (auto simp: SOUNDSCAPE_REGISTRY_def split: if_splits)



lemma getSoundscapeById_default:
  "getSoundscapeById DEFAULT_SOUNDSCAPE_ID =
     Own \<lparr>config_id = ''ocean-waves'', name = ''Ocean Waves'',
          description = ''Gentle waves lapping on the shore'', filename = ''ocean-waves'',
          available = True\<rparr>"
  by (simp add: getSoundscapeById_def DEFAULT_SOUNDSCAPE_ID_def SOUNDSCAPE_REGISTRY_def)

lemma module_playing_eq:
  "module_playing =
     \<lparr>audioPlayer = Some \<lparr>contentsOf = ''ocean-waves'', numberOfLoops = - 1,
                           player_volume = Float (3 / 10)\<rparr>,
      playing = True, currentSoundscape = ''ocean-waves'',
      trace = [StartPlayback, PlaybackStarted], sentEvents = []\<rparr>"
  by (simp add: module_playing_def startPlayback_def device_ok_def
      BackgroundAudioModule_created_def Let_def)

lemma startPlayback_trace:
  "trace (snd (startPlayback env m)) =
     trace m @ (if fst (startPlayback env m) = Inr True
                then [StartPlayback, PlaybackStarted] else [StartPlayback])"
  by (simp add: startPlayback_def Let_def)

lemma startPlayback_playing:
  "fst (startPlayback env m) = Inr b \<Longrightarrow> b \<and> playing (snd (startPlayback env m))"
  by (simp add: startPlayback_def Let_def split: if_splits)

lemma stopPlayback_idempotent:
  "playing (snd (stopPlayback m)) = False
   \<and> audioPlayer (snd (stopPlayback (snd (stopPlayback m)))) = audioPlayer (snd (stopPlayback m))
   \<and> playing (snd (stopPlayback (snd (stopPlayback m)))) = playing (snd (stopPlayback m))"
  by (simp add: stopPlayback_def)

section \<open>Facts about the narrowing to \<open>Float\<close>\<close>

lemma round_half_even_near: "\<bar>of_int (round_half_even y) - y\<bar> \<le> 1 / 2"
  unfolding round_half_even_def Let_def by (auto; linarith)

lemma round_half_even_nonneg: "0 \<le> y \<Longrightarrow> 0 \<le> round_half_even y"
  unfolding round_half_even_def Let_def by (auto; linarith)

lemma round_half_even_le: "y \<le> of_int n \<Longrightarrow> round_half_even y \<le> n"
  unfolding round_half_even_def Let_def
  by (auto simp: floor_le_iff le_floor_iff; linarith)

lemma round_half_even_of_int: "round_half_even (of_int n) = n"
  by (simp add: round_half_even_def)

lemma float_scale_bounds:
  "k \<le> float_scale n k x
   \<and> (2 ^ 23 \<le> x * 2 ^ float_scale n k x \<or> float_scale n k x = k + n)"
proof (induction n arbitrary: k)
  case 0
  show ?case by simp
next
  case (Suc n)
  from Suc [of "Suc k"] show ?case by auto
qed

lemma pow2_le_scaled:
  assumes "(2::real) ^ p \<le> x * 2 ^ k" and "x \<le> 1"
  shows "p \<le> k"
proof -
  have "x * 2 ^ k \<le> 1 * 2 ^ k"
    using assms(2) by (intro mult_right_mono) simp_all
  with assms(1) have "(2::real) ^ p \<le> 2 ^ k" by linarith
  then show ?thesis by (rule power_le_imp_le_exp [rotated]) simp
qed

lemma half_ulp_mono:
  assumes "p \<le> k"
  shows "(1 / 2) / (2::real) ^ k \<le> (1 / 2) / 2 ^ p"
  using assms by (intro divide_left_mono) (simp_all add: power_increasing)

lemma float_scale_ge_23:
  assumes "x \<le> 1"
  shows "23 \<le> float_scale 149 0 x"
proof -
  note b = float_scale_bounds [of 0 149 x]
  from b have "2 ^ 23 \<le> x * 2 ^ float_scale 149 0 x \<or> float_scale 149 0 x = 0 + 149"
    by (rule conjunct2)
  then show ?thesis
  proof
    assume "2 ^ 23 \<le> x * 2 ^ float_scale 149 0 x"
    then show ?thesis using assms by (rule pow2_le_scaled)
  next
    assume "float_scale 149 0 x = 0 + 149"
    then show ?thesis by simp
  qed
qed

lemma float_scale_stops:
  "k \<le> p \<Longrightarrow> p \<le> k + n \<Longrightarrow> (2::real) ^ 23 = 2 ^ p \<Longrightarrow> float_scale n k 1 = p"
proof (induction n arbitrary: k)
  case 0
  then show ?case by simp
next
  case (Suc n)
  show ?case
  proof (cases "k = p")
    case True
    with Suc.prems(3) show ?thesis by simp
  next
    case False
    with Suc.prems have lt: "k < p" by simp
    then have "(2::real) ^ k < 2 ^ p" by (intro power_strict_increasing) simp_all
    with Suc.prems(3) have "\<not> (2::real) ^ 23 \<le> 1 * 2 ^ k" by simp
    moreover from lt Suc.prems have "float_scale n (Suc k) 1 = p" by (intro Suc.IH) simp_all
    ultimately show ?thesis by simp
  qed
qed

lemma Float_range:
  assumes "0 \<le> x" and "x \<le> 1"
  shows "0 \<le> Float x \<and> Float x \<le> 1"
proof -
  define k where "k = float_scale 149 0 \<bar>x\<bar>"
  have F: "Float x = of_int (round_half_even (x * 2 ^ k)) / 2 ^ k"
    by (simp add: Float_def k_def Let_def)
  have "0 \<le> x * 2 ^ k" using assms by simp
  then have a: "0 \<le> round_half_even (x * 2 ^ k)" by (rule round_half_even_nonneg)
  have "x * 2 ^ k \<le> 1 * 2 ^ k" using assms by (intro mult_right_mono) simp_all
  then have "x * 2 ^ k \<le> of_int (2 ^ k)" by simp
  then have b: "round_half_even (x * 2 ^ k) \<le> 2 ^ k" by (rule round_half_even_le)
  from a have "0 \<le> Float x" by (simp add: F)
  moreover from b have "(of_int (round_half_even (x * 2 ^ k)) :: real) \<le> of_int (2 ^ k)"
    by (simp only: of_int_le_iff)
  then have "Float x \<le> 1" by (simp add: F divide_le_eq)
  ultimately show ?thesis by simp
qed

lemma Float_error:
  assumes "0 \<le> x" and "x \<le> 1"
  shows "\<bar>Float x - x\<bar> \<le> 1 / 2 ^ 24"
proof -
  define k where "k = float_scale 149 0 \<bar>x\<bar>"
  have F: "Float x = of_int (round_half_even (x * 2 ^ k)) / 2 ^ k"
    by (simp add: Float_def k_def Let_def)
  have "\<bar>x\<bar> \<le> 1" using assms by simp
  then have k23: "23 \<le> k" unfolding k_def by (rule float_scale_ge_23)
  have "Float x - x = (of_int (round_half_even (x * 2 ^ k)) - x * 2 ^ k) / 2 ^ k"
    by (simp add: F field_simps)
  then have "\<bar>Float x - x\<bar> = \<bar>of_int (round_half_even (x * 2 ^ k)) - x * 2 ^ k\<bar> / 2 ^ k"
    by simp
  also have "\<dots> \<le> (1 / 2) / 2 ^ k"
    by (intro divide_right_mono round_half_even_near) simp
  also have "\<dots> \<le> (1 / 2) / 2 ^ 23"
    using k23 by (rule half_ulp_mono)
  finally show ?thesis by simp
qed

lemma Float_0: "Float 0 = 0"
  by (simp add: Float_def Let_def round_half_even_def)

lemma Float_1: "Float 1 = 1"
proof -
  have "float_scale 149 0 1 = 23" by (rule float_scale_stops) simp_all
  then have "Float 1 = of_int (round_half_even (of_int (2 ^ 23))) / 2 ^ 23"
    by (simp add: Float_def Let_def)
  then show ?thesis by (simp only: round_half_even_of_int) simp
qed

text \<open>The narrowing is not the identity: one tenth becomes \<open>13421773 / 2^27\<close>.\<close>

lemma Float_tenth: "Float (1 / 10) = 13421773 / 134217728"
  by (simp add: Float_def Let_def round_half_even_def eval_nat_numeral)

section \<open>The registry lookup\<close>

text \<open>
  C9, as the code has it: for every id present in the registry the lookup returns that
  id's descriptor, and \<open>getSoundscapeFilename\<close> and \<open>isSoundscapeAvailable\<close> read its
  fields; the lookups change nothing. An id outside the registry is not reported as
  NotFound: \<open>getSoundscapeById\<close> gives no descriptor, and unless the id names a member of
  \<open>Object.prototype\<close> it gives \<open>undefined\<close>, on which \<open>getSoundscapeFilename\<close> and
  \<open>isSoundscapeAvailable\<close> throw a TypeError.
\<close>

theorem registry_lookup_present_descriptor:
  "(map_of SOUNDSCAPE_REGISTRY i = Some c \<longrightarrow>
      getSoundscapeById i = Own c \<and> config_id c = i
      \<and> getSoundscapeFilename i = Inr (Some (filename c))
      \<and> isSoundscapeAvailable i = Inr (Some (available c)))
   \<and> (map_of SOUNDSCAPE_REGISTRY i = None \<longrightarrow>
      getSoundscapeById i \<noteq> Own c
      \<and> (i \<notin> set OBJECT_PROTOTYPE_KEYS \<longrightarrow>
           getSoundscapeById i = Undefined \<and> getSoundscapeFilename i = Inl TypeError
           \<and> isSoundscapeAvailable i = Inl TypeError))"
  by (auto simp: getSoundscapeById_def getSoundscapeFilename_def isSoundscapeAvailable_def
      dest: registry_ids_match)

text \<open>
  C9, witness: the entry \<open>rain\<close> is returned as registered, and the unregistered id
  \<open>thunder\<close> makes \<open>getSoundscapeFilename\<close> throw.
\<close>

theorem registry_lookup_present_descriptor_witness:
  "getSoundscapeById ''rain'' =
     Own \<lparr>config_id = ''rain'', name = ''Rain'', description = ''Soft rainfall on leaves'',
          filename = ''rain'', available = False\<rparr>
   \<and> getSoundscapeFilename ''rain'' = Inr (Some ''rain'')
   \<and> getSoundscapeFilename ''thunder'' = Inl TypeError"
  using registry_lookup_present_descriptor [of "''rain''"
      "\<lparr>config_id = ''rain'', name = ''Rain'', description = ''Soft rainfall on leaves'',
        filename = ''rain'', available = False\<rparr>"]
    registry_lookup_present_descriptor [of "''thunder''"]
  by (simp add: SOUNDSCAPE_REGISTRY_def OBJECT_PROTOTYPE_KEYS_def)

text \<open>
  C9, counterexample to the claim as stated (an id that is not present gets NotFound and
  no crash): \<open>thunder\<close> is not a registry key, \<open>getSoundscapeById\<close> returns \<open>undefined\<close>
  for it, typed as a descriptor, and \<open>getSoundscapeFilename\<close> throws a TypeError.
\<close>

theorem registry_lookup_absent_counterexample:
  "map_of SOUNDSCAPE_REGISTRY ''thunder'' = None
   \<and> getSoundscapeById ''thunder'' = Undefined
   \<and> getSoundscapeFilename ''thunder'' = Inl TypeError"
  by (simp add: getSoundscapeFilename_def getSoundscapeById_def SOUNDSCAPE_REGISTRY_def
      OBJECT_PROTOTYPE_KEYS_def)

section \<open>An unavailable selection\<close>




section \<open>Volume\<close>

text \<open>
  C6: for every real \<open>v\<close>, \<open>setVolume(v)\<close> of the store stores \<open>min(1, max(0, v))\<close>,
  whatever the playback state (the store does not read it), and leaves the selected
  track alone. The module's \<open>setVolume(v)\<close> succeeds and gives the live player, if there
  is one, that clamped value narrowed to a \<open>Float\<close>: a value in \<open>[0, 1]\<close> within \<open>2^-24\<close> of
  the clamped one; the playing flag is not touched. In particular \<open>-0.5\<close> gives \<open>0\<close> and
  \<open>1.7\<close> gives \<open>1\<close>, stored and applied, exactly.
\<close>

theorem setVolume_clamps:
  "volume (useAudioStore_setVolume v st) = min 1 (max 0 v)
   \<and> soundscapeId (useAudioStore_setVolume v st) = soundscapeId st
   \<and> fst (BackgroundAudioModule_setVolume v m) = True
   \<and> audioPlayer (snd (BackgroundAudioModule_setVolume v m))
       = map_option (\<lambda>p. p\<lparr>player_volume := Float (min 1 (max 0 v))\<rparr>) (audioPlayer m)
   \<and> 0 \<le> Float (min 1 (max 0 v)) \<and> Float (min 1 (max 0 v)) \<le> 1
   \<and> \<bar>Float (min 1 (max 0 v)) - min 1 (max 0 v)\<bar> \<le> 1 / 2 ^ 24
   \<and> playing (snd (BackgroundAudioModule_setVolume v m)) = playing m
   \<and> volume (useAudioStore_setVolume (- 1 / 2) st) = 0
   \<and> volume (useAudioStore_setVolume (17 / 10) st) = 1
   \<and> map_option player_volume (audioPlayer (snd (BackgroundAudioModule_setVolume (- 1 / 2) m)))
       = map_option (\<lambda>p. 0) (audioPlayer m)
   \<and> map_option player_volume (audioPlayer (snd (BackgroundAudioModule_setVolume (17 / 10) m)))
       = map_option (\<lambda>p. 1) (audioPlayer m)"
proof -
  have e: "max 0 (min 1 v) = min 1 (max 0 v)" by (simp add: min_def max_def)
  have r: "0 \<le> min 1 (max 0 v)" "min 1 (max 0 v) \<le> 1" by simp_all
  note range = Float_range [OF r]
  note err = Float_error [OF r]
  have store: "volume (useAudioStore_setVolume v st) = min 1 (max 0 v)
      \<and> soundscapeId (useAudioStore_setVolume v st) = soundscapeId st
      \<and> volume (useAudioStore_setVolume (- 1 / 2) st) = 0
      \<and> volume (useAudioStore_setVolume (17 / 10) st) = 1"
    by (simp add: useAudioStore_setVolume_def Let_def min_def max_def)
  have native: "fst (BackgroundAudioModule_setVolume v m) = True
      \<and> audioPlayer (snd (BackgroundAudioModule_setVolume v m))
          = map_option (\<lambda>p. p\<lparr>player_volume := Float (min 1 (max 0 v))\<rparr>) (audioPlayer m)
      \<and> playing (snd (BackgroundAudioModule_setVolume v m)) = playing m"
    by (simp add: BackgroundAudioModule_setVolume_def e)
  have lo: "map_option player_volume
        (audioPlayer (snd (BackgroundAudioModule_setVolume (- 1 / 2) m)))
      = map_option (\<lambda>p. 0) (audioPlayer m)"
    by (cases "audioPlayer m") (simp_all add: BackgroundAudioModule_setVolume_def Float_0)
  have hi: "map_option player_volume
        (audioPlayer (snd (BackgroundAudioModule_setVolume (17 / 10) m)))
      = map_option (\<lambda>p. 1) (audioPlayer m)"
    by (cases "audioPlayer m") (simp_all add: BackgroundAudioModule_setVolume_def Float_1)
  from store native range err lo hi show ?thesis by blast
qed

section \<open>Facts about the concrete worlds and about \<open>play()\<close>\<close>

lemma getAvailableSoundscapes_eq:
  "getAvailableSoundscapes =
     [\<lparr>config_id = ''ocean-waves'', name = ''Ocean Waves'',
       description = ''Gentle waves lapping on the shore'', filename = ''ocean-waves'',
       available = True\<rparr>]"
  by (simp add: getAvailableSoundscapes_def SOUNDSCAPE_REGISTRY_def)

lemma world_reloaded_eq:
  "world_reloaded =
    \<lparr>platformOS = ''ios'', nativeModule = Some module_playing,
     audioService = \<lparr>isPlaying = False, healthCheckInterval = None,
                     onHealthCheckFailed = None\<rparr>,
     intervals = [], timersCreated = 0, callbacksInvoked = [], consoleWarnings = [],
     node = False\<rparr>"
  by (simp add: world_reloaded_def app_launched_def loadBackgroundAudioModule_def)

lemma play_world_stopped:
  "AudioService_play device_ok world_stopped =
    (Inr (),
     \<lparr>platformOS = ''ios'', nativeModule = Some module_playing,
      audioService = \<lparr>isPlaying = True, healthCheckInterval = None,
                      onHealthCheckFailed = None\<rparr>,
      intervals = [], timersCreated = 0, callbacksInvoked = [], consoleWarnings = [],
      node = False\<rparr>)"
  by (simp add: world_stopped_def AudioService_play_def app_launched_def
      loadBackgroundAudioModule_def BackgroundAudioModule_isPlaying_def
      BackgroundAudioModule_play_def BackgroundAudioModule_created_def startPlayback_def
      device_ok_def set_isPlaying_def module_playing_eq Let_def)

lemma world_running_eq:
  "world_running =
    \<lparr>platformOS = ''ios'', nativeModule = Some module_playing,
     audioService = \<lparr>isPlaying = True, healthCheckInterval = None,
                     onHealthCheckFailed = None\<rparr>,
     intervals = [], timersCreated = 0, callbacksInvoked = [], consoleWarnings = [],
     node = True\<rparr>"
proof -
  have "node world_stopped = False"
    by (simp add: world_stopped_def app_launched_def)
  moreover have "AudioService_play device_ok (world_stopped\<lparr>node := True\<rparr>) =
    (Inr (),
     \<lparr>platformOS = ''ios'', nativeModule = Some module_playing,
      audioService = \<lparr>isPlaying = True, healthCheckInterval = None,
                      onHealthCheckFailed = None\<rparr>,
      intervals = [], timersCreated = 0, callbacksInvoked = [], consoleWarnings = [],
      node = True\<rparr>)"
    by (simp add: world_stopped_def AudioService_play_def app_launched_def
        loadBackgroundAudioModule_def BackgroundAudioModule_isPlaying_def
        BackgroundAudioModule_play_def BackgroundAudioModule_created_def startPlayback_def
        device_ok_def set_isPlaying_def module_playing_eq Let_def)
  ultimately show ?thesis
    by (simp add: world_running_def startSigner_def Let_def)
qed

lemma world_watched_eq:
  "world_watched =
    \<lparr>platformOS = ''ios'', nativeModule = Some module_playing,
     audioService = \<lparr>isPlaying = True, healthCheckInterval = Some 1,
                     onHealthCheckFailed = Some 7\<rparr>,
     intervals = [(1, 30000)], timersCreated = 1, callbacksInvoked = [], consoleWarnings = [],
     node = False\<rparr>"
  by (simp add: world_watched_def play_world_stopped startHealthCheck_def Let_def)

lemma play_keeps_cached_flag:
  "isPlaying (audioService w) \<Longrightarrow> isPlaying (audioService (snd (AudioService_play env w)))"
  by (auto simp: AudioService_play_def set_isPlaying_def Let_def
      split: option.splits prod.splits sum.splits)

lemma play_no_stop:
  "engine_stops (snd (AudioService_play env w)) = engine_stops w"
  by (auto simp: AudioService_play_def engine_stops_def engine_trace_def set_isPlaying_def
      BackgroundAudioModule_play_def startPlayback_def Let_def
      split: option.splits prod.splits sum.splits)

lemma play_when_native_playing:
  "native_playing w \<Longrightarrow>
     snd (AudioService_play env w) = (if platformOS w = ''ios'' then set_isPlaying True w else w)"
  by (auto simp: AudioService_play_def native_playing_def BackgroundAudioModule_isPlaying_def
      split: option.splits)



section \<open>When \<open>play()\<close> starts the Engine\<close>

text \<open>
  C1, as the code has it: with the native module loaded on iOS, \<open>play()\<close> issues exactly
  one Engine start when the native \<open>isPlaying()\<close> answers false and none when it answers
  true, whatever the cached flag says; when it answers true \<open>play()\<close> only sets the
  cached flag. (The variant of the signer integration document adds one more return:
  it issues the start only if the cached flag is unset as well.) Without the module
  \<open>play()\<close> returns without any Engine call.
\<close>

theorem play_starts_when_native_not_playing:
  "engine_starts (snd (AudioService_play env w))
     = engine_starts w + (if module_available w \<and> \<not> native_playing w then 1 else 0)
   \<and> engine_starts (snd (AudioService_play_integration env w))
     = engine_starts w
       + (if module_available w \<and> \<not> native_playing w \<and> \<not> isPlaying (audioService w)
          then 1 else 0)
   \<and> (module_available w \<and> native_playing w \<longrightarrow>
        AudioService_play env w = (Inr (), set_isPlaying True w)
        \<and> AudioService_play_integration env w = (Inr (), set_isPlaying True w))
   \<and> (\<not> module_available w \<longrightarrow>
        AudioService_play env w = (Inr (), w)
        \<and> AudioService_play_integration env w = (Inr (), w))"
  by (auto simp: AudioService_play_def AudioService_play_integration_def engine_starts_def
      engine_trace_def module_available_def native_playing_def BackgroundAudioModule_play_def
      BackgroundAudioModule_isPlaying_def set_isPlaying_def startPlayback_def Let_def
      split: option.splits prod.splits sum.splits)

text \<open>
  C1, witness: after a reload the module plays and \<open>play()\<close> only sets the cached flag,
  the one earlier start remaining the only one; on Android \<open>play()\<close> changes nothing.
\<close>

theorem play_starts_when_native_not_playing_witness:
  "AudioService_play device_ok world_reloaded = (Inr (), set_isPlaying True world_reloaded)
   \<and> engine_starts (snd (AudioService_play device_ok world_reloaded)) = 1
   \<and> AudioService_play device_ok (app_launched ''android'' None)
       = (Inr (), app_launched ''android'' None)"
proof -
  have a: "module_available world_reloaded \<and> native_playing world_reloaded"
    by (simp add: world_reloaded_eq module_available_def native_playing_def module_playing_eq)
  have b: "engine_starts world_reloaded = 1"
    by (simp add: world_reloaded_eq engine_starts_def engine_trace_def module_playing_eq)
  have c: "\<not> module_available (app_launched ''android'' None)"
    by (simp add: app_launched_def module_available_def)
  note t = play_starts_when_native_not_playing [of device_ok world_reloaded]
  note u = play_starts_when_native_not_playing [of device_ok "app_launched ''android'' None"]
  from t have "engine_starts (snd (AudioService_play device_ok world_reloaded))
      = engine_starts world_reloaded
        + (if module_available world_reloaded \<and> \<not> native_playing world_reloaded then 1 else 0)"
    by (rule conjunct1)
  with a b have p: "engine_starts (snd (AudioService_play device_ok world_reloaded)) = 1"
    by simp
  from t a have q: "AudioService_play device_ok world_reloaded
      = (Inr (), set_isPlaying True world_reloaded)"
    by blast
  from u c have r: "AudioService_play device_ok (app_launched ''android'' None)
      = (Inr (), app_launched ''android'' None)"
    by blast
  from p q r show ?thesis by blast
qed

text \<open>
  C1, counterexample to the claim as stated (in every case other than "cached Playing
  and confirmed", \<open>play()\<close> issues an Engine start): after a reload the cached flag is
  unset while the module plays; \<open>play()\<close> returns normally and issues no start.
\<close>

theorem play_other_case_counterexample:
  "\<not> isPlaying (audioService world_reloaded)
   \<and> native_playing world_reloaded
   \<and> engine_starts (snd (AudioService_play device_ok world_reloaded))
       = engine_starts world_reloaded
   \<and> fst (AudioService_play device_ok world_reloaded) = Inr ()"
  by (simp add: world_reloaded_eq native_playing_def module_playing_eq
      AudioService_play_def BackgroundAudioModule_isPlaying_def set_isPlaying_def
      engine_starts_def engine_trace_def)

section \<open>The health check\<close>

text \<open>
  \<open>startHealthCheck\<close> registers the callback, and none of the operations whose body
  the sources give unregisters it: a tick, which only an interval started by
  \<open>startHealthCheck\<close> runs, finds it registered.
\<close>

lemma startHealthCheck_registers:
  "onHealthCheckFailed (audioService (startHealthCheck cb ms w)) = Some cb
   \<and> isPlaying (audioService (startHealthCheck cb ms w)) = isPlaying (audioService w)
   \<and> intervals (startHealthCheck cb ms w) \<noteq> []"
  by (simp add: startHealthCheck_def Let_def)

lemma callback_stays_registered:
  "onHealthCheckFailed (audioService (snd (AudioService_play env w)))
     = onHealthCheckFailed (audioService w)"
  "onHealthCheckFailed (audioService (healthCheckTick b w))
     = onHealthCheckFailed (audioService w)"
  "onHealthCheckFailed (audioService (stopHealthCheck w))
     = onHealthCheckFailed (audioService w)"
  by (auto simp: AudioService_play_def healthCheckTick_def stopHealthCheck_def
      set_isPlaying_def Let_def split: option.splits prod.splits sum.splits)

text \<open>
  C3: at a tick of the health check at which the cached flag says playing and the native
  query answers false, the tick clears the cached flag, invokes the registered callback
  exactly once (that is the one status notification, added to those made before), logs
  the one warning and makes no Engine call; a further tick with the same answer does
  nothing more.
\<close>

theorem healthCheckTick_divergence:
  assumes "isPlaying (audioService w)" and "onHealthCheckFailed (audioService w) = Some cb"
  shows "\<not> isPlaying (audioService (healthCheckTick False w))
    \<and> callbacksInvoked (healthCheckTick False w) = callbacksInvoked w @ [cb]
    \<and> consoleWarnings (healthCheckTick False w)
        = consoleWarnings w @ [''[AudioService] Health check failed'']
    \<and> healthCheckTick False (healthCheckTick False w) = healthCheckTick False w
    \<and> nativeModule (healthCheckTick False w) = nativeModule w"
  using assms by (simp add: healthCheckTick_def set_isPlaying_def Let_def)

text \<open>
  C3, witness: playback was started and the health check registered with callback 7;
  the tick that hears false clears the flag and the callbacks invoked are just 7.
\<close>

theorem healthCheckTick_divergence_witness:
  "\<not> isPlaying (audioService (healthCheckTick False world_watched))
   \<and> callbacksInvoked (healthCheckTick False world_watched) = [7]"
proof -
  have a: "isPlaying (audioService world_watched)"
    by (simp add: world_watched_eq)
  have b: "onHealthCheckFailed (audioService world_watched) = Some 7"
    by (simp add: world_watched_eq)
  have c: "callbacksInvoked world_watched = []"
    by (simp add: world_watched_eq)
  from healthCheckTick_divergence [OF a b] c show ?thesis by simp
qed

section \<open>Interruption and resume\<close>

text \<open>
  C7, as the code has it: when playback runs on a live player and an interruption
  begins and then ends with the session reactivated and the player's \<open>play()\<close>
  succeeding, the module reports exactly two state changes, "interrupted" and then
  "resumed", so the session goes Playing, Interrupted, Playing with no separate
  resuming state; no playback start or stop is issued, the player is the one that
  existed before, and the module still counts as playing.
\<close>

theorem interruption_resume_path:
  assumes "playing m" and "audioPlayer m = Some p"
    and "session_activates env" and "player_plays env"
  shows "events_since m (interruption_cycle env m)
        = [(False, ''interrupted''), (True, ''resumed'')]
    \<and> session_path Playing (events_since m (interruption_cycle env m))
        = [Playing, Interrupted, Playing]
    \<and> trace (interruption_cycle env m) = trace m
    \<and> audioPlayer (interruption_cycle env m) = Some p
    \<and> playing (interruption_cycle env m)"
  using assms
  by (simp add: interruption_cycle_def handleInterruption_def sendEvent_def events_since_def
      session_path_def state_of_event_def Let_def)

text \<open>
  C7, witness: the module after one successful start on the working device goes through
  Playing, Interrupted, Playing and its trace stays as it was.
\<close>

theorem interruption_resume_path_witness:
  "session_path Playing
      (events_since module_playing (interruption_cycle device_ok module_playing))
     = [Playing, Interrupted, Playing]
   \<and> trace (interruption_cycle device_ok module_playing) = trace module_playing
   \<and> playing (interruption_cycle device_ok module_playing)"
proof -
  have a: "playing module_playing"
    by (simp add: module_playing_eq)
  have b: "audioPlayer module_playing
    = Some \<lparr>contentsOf = ''ocean-waves'', numberOfLoops = - 1,
            player_volume = Float (3 / 10)\<rparr>"
    by (simp add: module_playing_eq)
  have c: "session_activates device_ok" and d: "player_plays device_ok"
    by (simp_all add: device_ok_def)
  from interruption_resume_path [OF a b c d] show ?thesis by blast
qed

text \<open>
  C7, counterexample to the claim as stated (the path is Playing, Interrupted, Resuming,
  Playing): on the working device the events of the cycle are "interrupted" and
  "resumed" and nothing in between, and the path they give is not the claimed one.
\<close>

theorem interruption_no_resuming_counterexample:
  "events_since module_playing (interruption_cycle device_ok module_playing)
     = [(False, ''interrupted''), (True, ''resumed'')]
   \<and> session_path Playing
        (events_since module_playing (interruption_cycle device_ok module_playing))
       \<noteq> [Playing, Interrupted, Resuming, Playing]"
  by (simp add: interruption_cycle_def handleInterruption_def sendEvent_def events_since_def
      session_path_def state_of_event_def Let_def module_playing_eq device_ok_def)

section \<open>Switching the track\<close>




section \<open>Restart with the audio kept\<close>

lemma stopSigner_keepAudio:
  "stopSigner audio_stop (Some True) w = w\<lparr>node := False\<rparr>"
  by (simp add: stopSigner_def Let_def)

text \<open>
  C4: when the signer runs and the cached state is playing, a restart
  (\<open>stopSigner\<close> with \<open>keepAudio: true\<close>, then the rest of \<open>startSigner\<close> with a startup
  that succeeds) never stops the Engine, whatever the body of \<open>audioService.stop()\<close>
  is: \<open>stopSigner\<close> leaves the module as it was, the number of Engine stops after the
  restart is what it was before, and the cached state is playing after \<open>stopSigner\<close> and
  after the restart. If the Engine was playing as well, the restart leaves the module
  untouched altogether, so no start is issued either.
\<close>

theorem restart_keeps_audio:
  assumes "node w" and "isPlaying (audioService w)"
  shows "isPlaying (audioService (stopSigner audio_stop (Some True) w))
    \<and> nativeModule (stopSigner audio_stop (Some True) w) = nativeModule w
    \<and> fst (startSigner audio_stop env True w) = Inr ()
    \<and> engine_stops (snd (startSigner audio_stop env True w)) = engine_stops w
    \<and> isPlaying (audioService (snd (startSigner audio_stop env True w)))
    \<and> (native_playing w \<longrightarrow>
         nativeModule (snd (startSigner audio_stop env True w)) = nativeModule w)"
proof -
  let ?w1 = "w\<lparr>node := False\<rparr>"
  let ?w2 = "w\<lparr>node := True\<rparr>"
  have s: "stopSigner audio_stop (Some True) w = ?w1" by (rule stopSigner_keepAudio)
  have c2: "isPlaying (audioService ?w2)" using assms(2) by simp
  have st: "engine_stops ?w2 = engine_stops w"
    by (simp add: engine_stops_def engine_trace_def)
  have r: "fst (startSigner audio_stop env True w) = Inr ()"
    by (auto simp: startSigner_def Let_def split: prod.splits sum.splits)
  have a: "engine_stops (snd (startSigner audio_stop env True w)) = engine_stops w"
    using assms(1) play_no_stop [of env ?w2] st
    by (auto simp: startSigner_def s Let_def engine_stops_def engine_trace_def
        split: prod.splits sum.splits)
  have b: "isPlaying (audioService (snd (startSigner audio_stop env True w)))"
    using assms play_keeps_cached_flag [OF c2, of env]
    by (auto simp: startSigner_def s Let_def split: prod.splits sum.splits)
  have c: "native_playing w \<longrightarrow>
      nativeModule (snd (startSigner audio_stop env True w)) = nativeModule w"
  proof
    assume np: "native_playing w"
    then have "native_playing ?w2" by (simp add: native_playing_def)
    from play_when_native_playing [OF this, of env]
    show "nativeModule (snd (startSigner audio_stop env True w)) = nativeModule w"
      using assms(1)
      by (auto simp: startSigner_def s Let_def set_isPlaying_def split: prod.splits sum.splits)
  qed
  from s assms r a b c show ?thesis by simp
qed

text \<open>
  C4, witness: the signer was started once on the working device, with a
  \<open>audioService.stop()\<close> that does stop the module; restarting it leaves the module as
  that one start left it, with no stop in its trace, and the cached state playing.
\<close>

theorem restart_keeps_audio_witness:
  "isPlaying (audioService (stopSigner stop_calling_module (Some True) world_running))
   \<and> engine_stops (snd (startSigner stop_calling_module device_ok True world_running)) = 0
   \<and> isPlaying (audioService (snd (startSigner stop_calling_module device_ok True world_running)))
   \<and> nativeModule (snd (startSigner stop_calling_module device_ok True world_running))
       = Some module_playing"
proof -
  have a: "node world_running" and b: "isPlaying (audioService world_running)"
    by (simp_all add: world_running_eq)
  have c: "native_playing world_running"
    by (simp add: world_running_eq native_playing_def module_playing_eq)
  have d: "engine_stops world_running = 0"
    by (simp add: world_running_eq engine_stops_def engine_trace_def module_playing_eq)
  have e: "nativeModule world_running = Some module_playing"
    by (simp add: world_running_eq)
  from restart_keeps_audio [OF a b, of stop_calling_module device_ok] c d e
  show ?thesis by simp
qed

text \<open>
  That stand-in for \<open>audioService.stop()\<close> is not idle: called on the running world, as
  \<open>stopSigner\<close> without \<open>keepAudio\<close> does, it stops the Engine.
\<close>

lemma stopSigner_without_keepAudio_stops:
  "engine_stops (stopSigner stop_calling_module None world_running) = 1
   \<and> \<not> isPlaying (audioService (stopSigner stop_calling_module None world_running))"
  by (simp add: stopSigner_def stop_calling_module_def world_running_eq set_isPlaying_def
      BackgroundAudioModule_stop_def stopPlayback_def engine_stops_def engine_trace_def
      module_playing_eq Let_def)

section \<open>Without the native module\<close>

text \<open>
  On a platform other than iOS, or when the native module fails to load, the binding is
  unavailable from launch on, and \<open>play()\<close> then returns normally and leaves everything
  as it was. The bodies of \<open>stop()\<close> and \<open>setVolume()\<close> of the service are elided in the
  sources, so nothing is stated about them.
\<close>

lemma play_without_module:
  "((os \<noteq> ''ios'' \<or> required = None) \<longrightarrow> \<not> module_available (app_launched os required))
   \<and> (\<not> module_available w \<longrightarrow> AudioService_play env w = (Inr (), w))"
  by (auto simp: module_available_def app_launched_def loadBackgroundAudioModule_def
      AudioService_play_def split: option.splits)

section \<open>Overlapping and sequential calls of \<open>play()\<close>\<close>

text \<open>Run alone, the three steps of a call are \<open>AudioService.play\<close>.\<close>

lemma play_steps_agree:
  "(case play_step env Called w of (pc1, w1) \<Rightarrow>
      case play_step env pc1 w1 of (pc2, w2) \<Rightarrow> play_step env pc2 w2)
   = (Returned (fst (AudioService_play env w)), snd (AudioService_play env w))"
  by (auto simp: AudioService_play_def BackgroundAudioModule_isPlaying_def set_isPlaying_def
      Let_def split: option.splits prod.splits sum.splits)







end
